theory Spec2Isabelle
  imports Complex_Main "HOL-Library.Sublist"
begin

section \<open>Values, exceptions and the canonical event record\<close>

text \<open>
  The two modules \<^verbatim>\<open>main.py\<close> and \<^verbatim>\<open>ticketmaster.py\<close> are Python: values are dynamically
  typed and every library call may raise. Exceptions are values of type \<open>exn\<close>, a
  computation that may raise has a result of type \<open>exn + 'a\<close> (\<open>Inl\<close> the exception).
  A Python float is idealised as a real: a finite value, without rounding; the values
  \<^verbatim>\<open>inf\<close> and \<^verbatim>\<open>nan\<close> are outside the model. A Python int is an \<open>int\<close>. A character is
  one code point of the Python string.
\<close>

datatype exn = AttributeError | KeyError | TypeError | ValueError | IndexError
  | OverflowError | ExternalError string

text \<open>What \<^verbatim>\<open>response.json()\<close> returns: a JSON document as Python values. A number without
  fraction and exponent is an int of any size (\<open>JInt\<close>), any other number a float
  (\<open>JFloat\<close>). A \<open>JObj\<close> is the parsed dict, looked up with \<open>map_of\<close>.\<close>

datatype json = JNull | JBool bool | JInt int | JFloat real | JStr string
  | JArr "json list" | JObj "(string \<times> json) list"

type_synonym coords = "real \<times> real"

text \<open>The dict built by both parsers, with its eight keys. The API adapter stores whatever
  values the response holds under \<^verbatim>\<open>name\<close>, \<^verbatim>\<open>url\<close> and \<^verbatim>\<open>localDate\<close>, so these three
  fields are JSON values; the HTML adapter stores strings there (\<open>JStr\<close>).\<close>

record event =
  title :: json
  artist :: string
  date_str :: json
  location :: string
  source :: string
  ticket_link :: json
  coordinates :: "coords option"
  scraped_at :: string

text \<open>A candidate element of a search page, seen through the four queries that
  \<^verbatim>\<open>parse_eventim_event\<close> makes on it: each is the outcome of \<^verbatim>\<open>element.find(...)\<close>
  followed by \<^verbatim>\<open>get_text(strip=True)\<close> (for the link: by \<^verbatim>\<open>['href']\<close>); \<open>Inr None\<close> when no
  sub-element matches, \<open>Inl\<close> when the library raises.\<close>

record element =
  title_elem :: "exn + string option"
  date_elem :: "exn + string option"
  location_elem :: "exn + string option"
  link_elem :: "exn + string option"

section \<open>The external collaborators\<close>

text \<open>
  Everything outside the repository is a field of the environment: the Nominatim geocoder
  (its answer may depend on the queries made before), geopy's \<^verbatim>\<open>geodesic\<close>, the clock, the
  aiohttp session of the HTML adapters (its creation and its GET, which gives the status
  and the candidates \<^verbatim>\<open>find_all\<close> returns), the environment variable \<^verbatim>\<open>TM_API_KEY\<close>, the
  session and the GET of the API adapter (keyed by API key and artist), Python's
  \<^verbatim>\<open>float\<close> on strings, \<^verbatim>\<open>str\<close> on values that are not strings, and the database.
\<close>

record env =
  geocode :: "string list \<Rightarrow> string \<Rightarrow> exn + coords option"
  geodesic :: "coords \<Rightarrow> coords \<Rightarrow> exn + real"
  clock_now :: string
  session_create :: "exn option"
  session_get :: "string \<Rightarrow> exn + (nat \<times> element list)"
  tm_api_key :: "string option"
  tm_session_create :: "exn option"
  tm_get :: "string \<Rightarrow> string \<Rightarrow> exn + (nat \<times> json)"
  parse_float :: "string \<Rightarrow> real option"
  repr :: "json \<Rightarrow> string"
  db_save :: "event list \<Rightarrow> exn option"

text \<open>The state of an \<^verbatim>\<open>EventScraper\<close>: whether \<^verbatim>\<open>self.session\<close> is set, and the queries sent
  to the geocoder so far, oldest first.\<close>

record scraper =
  session_open :: bool
  geocoded :: "string list"

section \<open>main.py: the geo resolver\<close>

definition WROCLAW_COORDS :: coords where
  "WROCLAW_COORDS = (511079 / 10000, 170385 / 10000)"

definition MAX_DISTANCE_KM :: real where
  "MAX_DISTANCE_KM = 700"

definition TARGET_ARTISTS :: "string list" where
  "TARGET_ARTISTS =
     [''Ti'' @ [CHR 0xEB] @ ''sto'', ''David Guetta'', ''Martin Garrix'', ''Armin van Buuren'',
      ''Calvin Harris'', ''Hardwell'', ''Dimitri Vegas & Like Mike'',
      ''Fisher'', ''Charlotte de Witte'', ''Carl Cox'', ''Adam Beyer'',
      ''Amelie Lens'', ''Tale Of Us'', ''Boris Brejcha'', ''Kolsch'']"

text \<open>\<^verbatim>\<open>get_city_coordinates\<close>: one call of the geocoder, whose exception is caught and gives
  \<open>None\<close>. There is no cache: the query is sent on every call.\<close>

definition get_city_coordinates :: "env \<Rightarrow> scraper \<Rightarrow> string \<Rightarrow> coords option \<times> scraper" where
  "get_city_coordinates w s city_name =
     (case geocode w (geocoded s) city_name of
        Inl e \<Rightarrow> None
      | Inr None \<Rightarrow> None
      | Inr (Some (latitude, longitude)) \<Rightarrow> Some (latitude, longitude),
      s\<lparr>geocoded := geocoded s @ [city_name]\<rparr>)"

text \<open>\<^verbatim>\<open>is_within_range\<close>: an exception of the distance computation gives \<open>False\<close>.\<close>

definition is_within_range :: "env \<Rightarrow> coords \<Rightarrow> bool" where
  "is_within_range w city_coords =
     (case geodesic w WROCLAW_COORDS city_coords of
        Inl e \<Rightarrow> False
      | Inr distance \<Rightarrow> distance \<le> MAX_DISTANCE_KM)"

section \<open>main.py: the HTML adapters\<close>

definition startswith_slash :: "string \<Rightarrow> bool" where
  "startswith_slash href = (case href of [] \<Rightarrow> False | c # cs \<Rightarrow> c = CHR ''/'')"

text \<open>\<^verbatim>\<open>parse_eventim_event\<close>. The four queries run first, in the source's order; an exception
  in any of them reaches the \<^verbatim>\<open>except\<close> of the function, which returns \<open>None\<close>. A tuple of
  coordinates is truthy, so \<^verbatim>\<open>city_coords and not ...\<close> tests that it is not \<open>None\<close>.\<close>

definition parse_eventim_event ::
  "env \<Rightarrow> scraper \<Rightarrow> element \<Rightarrow> string \<Rightarrow> string \<Rightarrow> event option \<times> scraper" where
  "parse_eventim_event w s el art src =
     (case title_elem el of Inl e \<Rightarrow> (None, s) | Inr title_e \<Rightarrow>
     (case date_elem el of Inl e \<Rightarrow> (None, s) | Inr date_e \<Rightarrow>
     (case location_elem el of Inl e \<Rightarrow> (None, s) | Inr location_e \<Rightarrow>
     (case link_elem el of Inl e \<Rightarrow> (None, s) | Inr link_e \<Rightarrow>
       (let ttl = (case title_e of Some t \<Rightarrow> t | None \<Rightarrow> art @ '' - Event'');
            dat = (case date_e of Some d \<Rightarrow> d | None \<Rightarrow> '''');
            loc = (case location_e of Some l \<Rightarrow> l | None \<Rightarrow> ''Unknown'');
            lnk = (case link_e of
                     None \<Rightarrow> ''''
                   | Some href \<Rightarrow>
                       if startswith_slash href then ''https://www.'' @ src @ href else href);
            (city_coords, s') = get_city_coordinates w s loc
        in if (case city_coords of None \<Rightarrow> False | Some c \<Rightarrow> \<not> is_within_range w c)
           then (None, s')
           else (Some \<lparr>title = JStr ttl, artist = art, date_str = JStr dat, location = loc,
                        source = src, ticket_link = JStr lnk, coordinates = city_coords,
                        scraped_at = clock_now w\<rparr>, s'))))))"

text \<open>The loop over \<^verbatim>\<open>event_elements[:5]\<close>: an event that is not \<open>None\<close> is appended.\<close>

fun parse_elements ::
  "env \<Rightarrow> string \<Rightarrow> string \<Rightarrow> element list \<Rightarrow> event list \<times> scraper \<Rightarrow> event list \<times> scraper" where
  "parse_elements w art src [] (events, s) = (events, s)"
| "parse_elements w art src (el # rest) (events, s) =
     (case parse_eventim_event w s el art src of
        (Some event_data, s') \<Rightarrow> parse_elements w art src rest (events @ [event_data], s')
      | (None, s') \<Rightarrow> parse_elements w art src rest (events, s'))"

definition search_url :: "string \<Rightarrow> string \<Rightarrow> string" where
  "search_url src art =
     ''https://www.'' @ src @ ''/search/?term='' @
     map (\<lambda>c. if c = CHR '' '' then CHR ''+'' else c) art"

text \<open>The loop over the artists, the same in \<^verbatim>\<open>scrape_eventim_pl\<close> and
  \<^verbatim>\<open>scrape_eventim_de\<close> up to the domain: an exception of the request is caught for the
  artist, a status other than 200 gives nothing.\<close>

fun scrape_artists ::
  "env \<Rightarrow> string \<Rightarrow> string list \<Rightarrow> event list \<times> scraper \<Rightarrow> event list \<times> scraper" where
  "scrape_artists w src [] (events, s) = (events, s)"
| "scrape_artists w src (art # rest) (events, s) =
     (case session_get w (search_url src art) of
        Inl e \<Rightarrow> scrape_artists w src rest (events, s)
      | Inr (status, event_elements) \<Rightarrow>
          if status = 200
          then scrape_artists w src rest
                 (parse_elements w art src (take 5 event_elements) (events, s))
          else scrape_artists w src rest (events, s))"

text \<open>\<^verbatim>\<open>get_session\<close> creates the session once; its exception is not caught.\<close>

definition get_session :: "env \<Rightarrow> scraper \<Rightarrow> exn + scraper" where
  "get_session w s =
     (if session_open s then Inr s
      else (case session_create w of
              Some e \<Rightarrow> Inl e
            | None \<Rightarrow> Inr (s\<lparr>session_open := True\<rparr>)))"

definition close_session :: "scraper \<Rightarrow> scraper" where
  "close_session s = s\<lparr>session_open := False\<rparr>"

definition scrape_eventim_pl :: "env \<Rightarrow> scraper \<Rightarrow> exn + (event list \<times> scraper)" where
  "scrape_eventim_pl w s =
     (case get_session w s of
        Inl e \<Rightarrow> Inl e
      | Inr s' \<Rightarrow> Inr (scrape_artists w ''eventim.pl'' TARGET_ARTISTS ([], s')))"

definition scrape_eventim_de :: "env \<Rightarrow> scraper \<Rightarrow> exn + (event list \<times> scraper)" where
  "scrape_eventim_de w s =
     (case get_session w s of
        Inl e \<Rightarrow> Inl e
      | Inr s' \<Rightarrow> Inr (scrape_artists w ''eventim.de'' TARGET_ARTISTS ([], s')))"

section \<open>ticketmaster.py: Python's operations on JSON values\<close>

definition bind_res :: "exn + 'a \<Rightarrow> ('a \<Rightarrow> exn + 'b) \<Rightarrow> exn + 'b" where
  "bind_res r f = (case r of Inl e \<Rightarrow> Inl e | Inr v \<Rightarrow> f v)"

text \<open>\<^verbatim>\<open>x.get(k, d)\<close>: only a dict has the method.\<close>

fun py_get :: "json \<Rightarrow> string \<Rightarrow> json \<Rightarrow> exn + json" where
  "py_get (JObj kv) k d = Inr (case map_of kv k of Some v \<Rightarrow> v | None \<Rightarrow> d)"
| "py_get (JArr xs) k d = Inl AttributeError"
| "py_get (JStr s) k d = Inl AttributeError"
| "py_get (JInt i) k d = Inl AttributeError"
| "py_get (JFloat r) k d = Inl AttributeError"
| "py_get (JBool b) k d = Inl AttributeError"
| "py_get JNull k d = Inl AttributeError"

text \<open>Truth value of a value in a condition.\<close>

fun py_truthy :: "json \<Rightarrow> bool" where
  "py_truthy JNull = False"
| "py_truthy (JBool b) = b"
| "py_truthy (JInt i) = (i \<noteq> 0)"
| "py_truthy (JFloat r) = (r \<noteq> 0)"
| "py_truthy (JStr s) = (s \<noteq> [])"
| "py_truthy (JArr xs) = (xs \<noteq> [])"
| "py_truthy (JObj kv) = (kv \<noteq> [])"

text \<open>\<^verbatim>\<open>k in x\<close> for a string \<open>k\<close>: a key of a dict, an element of a list, a substring of a
  string; a TypeError on the rest.\<close>

fun py_in :: "string \<Rightarrow> json \<Rightarrow> exn + bool" where
  "py_in k (JObj kv) = Inr (map_of kv k \<noteq> None)"
| "py_in k (JArr xs) = Inr (JStr k \<in> set xs)"
| "py_in k (JStr s) = Inr (sublist k s)"
| "py_in k (JInt i) = Inl TypeError"
| "py_in k (JFloat r) = Inl TypeError"
| "py_in k (JBool b) = Inl TypeError"
| "py_in k JNull = Inl TypeError"

text \<open>\<^verbatim>\<open>x[k]\<close> for a string \<open>k\<close>.\<close>

fun py_subscript :: "json \<Rightarrow> string \<Rightarrow> exn + json" where
  "py_subscript (JObj kv) k = (case map_of kv k of Some v \<Rightarrow> Inr v | None \<Rightarrow> Inl KeyError)"
| "py_subscript (JArr xs) k = Inl TypeError"
| "py_subscript (JStr s) k = Inl TypeError"
| "py_subscript (JInt i) k = Inl TypeError"
| "py_subscript (JFloat r) k = Inl TypeError"
| "py_subscript (JBool b) k = Inl TypeError"
| "py_subscript JNull k = Inl TypeError"

text \<open>\<^verbatim>\<open>x[0]\<close>: the keys of a parsed JSON object are strings, so \<open>0\<close> is never a key.\<close>

fun py_index0 :: "json \<Rightarrow> exn + json" where
  "py_index0 (JArr []) = Inl IndexError"
| "py_index0 (JArr (x # xs)) = Inr x"
| "py_index0 (JStr []) = Inl IndexError"
| "py_index0 (JStr (c # cs)) = Inr (JStr [c])"
| "py_index0 (JObj kv) = Inl KeyError"
| "py_index0 (JInt i) = Inl TypeError"
| "py_index0 (JFloat r) = Inl TypeError"
| "py_index0 (JBool b) = Inl TypeError"
| "py_index0 JNull = Inl TypeError"

text \<open>The items a \<^verbatim>\<open>for\<close> loop visits.\<close>

fun py_iter :: "json \<Rightarrow> exn + json list" where
  "py_iter (JArr xs) = Inr xs"
| "py_iter (JObj kv) = Inr (map (\<lambda>p. JStr (fst p)) kv)"
| "py_iter (JStr s) = Inr (map (\<lambda>c. JStr [c]) s)"
| "py_iter (JInt i) = Inl TypeError"
| "py_iter (JFloat r) = Inl TypeError"
| "py_iter (JBool b) = Inl TypeError"
| "py_iter JNull = Inl TypeError"

fun py_len :: "json \<Rightarrow> exn + nat" where
  "py_len (JArr xs) = Inr (length xs)"
| "py_len (JObj kv) = Inr (length kv)"
| "py_len (JStr s) = Inr (length s)"
| "py_len (JInt i) = Inl TypeError"
| "py_len (JFloat r) = Inl TypeError"
| "py_len (JBool b) = Inl TypeError"
| "py_len JNull = Inl TypeError"

text \<open>\<^verbatim>\<open>float(x)\<close>. An int converts when rounding it to the nearest double gives a finite
  value, that is when its magnitude is below \<open>2^1024 - 2^970\<close>, halfway between the largest
  double and \<open>2^1024\<close>; a larger one raises OverflowError.\<close>

definition FLOAT_OVERFLOW :: int where
  "FLOAT_OVERFLOW = 2 ^ 1024 - 2 ^ 970"

fun py_float :: "env \<Rightarrow> json \<Rightarrow> exn + real" where
  "py_float w (JInt i) =
     (if \<bar>i\<bar> \<ge> FLOAT_OVERFLOW then Inl OverflowError else Inr (real_of_int i))"
| "py_float w (JFloat r) = Inr r"
| "py_float w (JBool b) = Inr (if b then 1 else 0)"
| "py_float w (JStr s) = (case parse_float w s of None \<Rightarrow> Inl ValueError | Some r \<Rightarrow> Inr r)"
| "py_float w (JArr xs) = Inl TypeError"
| "py_float w (JObj kv) = Inl TypeError"
| "py_float w JNull = Inl TypeError"

text \<open>A value inside an f-string.\<close>

fun py_str :: "env \<Rightarrow> json \<Rightarrow> string" where
  "py_str w (JStr s) = s"
| "py_str w (JInt i) = repr w (JInt i)"
| "py_str w (JFloat r) = repr w (JFloat r)"
| "py_str w (JBool b) = repr w (JBool b)"
| "py_str w (JArr xs) = repr w (JArr xs)"
| "py_str w (JObj kv) = repr w (JObj kv)"
| "py_str w JNull = repr w JNull"

section \<open>ticketmaster.py: the API adapter\<close>

definition TM_MAX_DISTANCE_KM :: real where
  "TM_MAX_DISTANCE_KM = 1000"

text \<open>Lines 61 to 69 of \<^verbatim>\<open>parse_events\<close>: the name, the URL, the start date and the value of
  \<^verbatim>\<open>venues\<close> of one item of the response.\<close>

definition event_fields :: "json \<Rightarrow> exn + (json \<times> json \<times> json \<times> json)" where
  "event_fields ev =
     bind_res (py_get ev ''name'' (JStr [])) (\<lambda>name.
     bind_res (py_get ev ''url'' (JStr [])) (\<lambda>url.
     bind_res (py_get ev ''dates'' (JObj [])) (\<lambda>dates_obj.
     bind_res (py_get dates_obj ''start'' (JObj [])) (\<lambda>dates.
     bind_res (py_get dates ''localDate'' (JStr [])) (\<lambda>dat.
     bind_res (py_get ev ''_embedded'' (JObj [])) (\<lambda>emb.
     bind_res (py_get emb ''venues'' (JArr [])) (\<lambda>venues.
     Inr (name, url, dat, venues))))))))"

text \<open>Lines 72 to 74: the string \<^verbatim>\<open>f"{city}, {country}"\<close> of a venue.\<close>

definition venue_place :: "env \<Rightarrow> json \<Rightarrow> exn + string" where
  "venue_place w venue =
     bind_res (py_get venue ''city'' (JObj [])) (\<lambda>city_obj.
     bind_res (py_get city_obj ''name'' (JStr [])) (\<lambda>city.
     bind_res (py_get venue ''country'' (JObj [])) (\<lambda>country_obj.
     bind_res (py_get country_obj ''countryCode'' (JStr [])) (\<lambda>country.
     Inr (py_str w city @ '', '' @ py_str w country)))))"

text \<open>Lines 70 to 95: the location string and the coordinates of one event, from the value
  of \<^verbatim>\<open>venues\<close>. \<open>Inr None\<close> is the \<^verbatim>\<open>continue\<close> of an event that is too far.\<close>

definition venue_info :: "env \<Rightarrow> json \<Rightarrow> exn + (string \<times> coords option) option" where
  "venue_info w venues =
     (if py_truthy venues then
        bind_res (py_index0 venues) (\<lambda>venue.
        bind_res (venue_place w venue) (\<lambda>loc.
        bind_res (py_get venue ''location'' JNull) (\<lambda>venue_location.
        if py_truthy venue_location then
          bind_res (py_subscript venue ''location'') (\<lambda>vl1.
          bind_res (py_get vl1 ''latitude'' (JInt 0)) (\<lambda>la.
          bind_res (py_float w la) (\<lambda>lat.
          bind_res (py_subscript venue ''location'') (\<lambda>vl2.
          bind_res (py_get vl2 ''longitude'' (JInt 0)) (\<lambda>lo.
          bind_res (py_float w lo) (\<lambda>lon.
          if lat \<noteq> 0 \<and> lon \<noteq> 0 then
            bind_res (geodesic w WROCLAW_COORDS (lat, lon)) (\<lambda>distance.
              if distance > TM_MAX_DISTANCE_KM then Inr None
              else Inr (Some (loc, Some (lat, lon))))
          else Inr (Some (loc, None))))))))
        else Inr (Some (loc, None)))))
      else Inr (Some (''Unknown'', None)))"

text \<open>The body of the loop of \<^verbatim>\<open>parse_events\<close> for one item: \<open>Inl\<close> is an exception, which
  the \<^verbatim>\<open>except\<close> of the loop body catches; \<open>Inr None\<close> is the \<^verbatim>\<open>continue\<close>.\<close>

definition parse_event :: "env \<Rightarrow> string \<Rightarrow> json \<Rightarrow> exn + event option" where
  "parse_event w art ev =
     bind_res (event_fields ev) (\<lambda>(name, url, dat, venues).
     bind_res (venue_info w venues) (\<lambda>r.
       case r of
         None \<Rightarrow> Inr None
       | Some (loc, coordinates_v) \<Rightarrow>
           Inr (Some \<lparr>title = name, artist = art, date_str = dat, location = loc,
                       source = ''ticketmaster'', ticket_link = url,
                       coordinates = coordinates_v, scraped_at = clock_now w\<rparr>)))"

fun parse_items :: "env \<Rightarrow> string \<Rightarrow> json list \<Rightarrow> event list \<Rightarrow> event list" where
  "parse_items w art [] events = events"
| "parse_items w art (ev # rest) events =
     (case parse_event w art ev of
        Inr (Some e) \<Rightarrow> parse_items w art rest (events @ [e])
      | Inr None \<Rightarrow> parse_items w art rest events
      | Inl x \<Rightarrow> parse_items w art rest events)"

text \<open>\<^verbatim>\<open>parse_events\<close>: the membership tests and the subscripts before the loop are outside
  its \<^verbatim>\<open>try\<close>, so their exceptions leave the function.\<close>

definition parse_events :: "env \<Rightarrow> json \<Rightarrow> string \<Rightarrow> exn + event list" where
  "parse_events w data art =
     bind_res (py_in ''_embedded'' data) (\<lambda>has_embedded.
     if \<not> has_embedded then Inr []
     else
       bind_res (py_subscript data ''_embedded'') (\<lambda>emb.
       bind_res (py_in ''events'' emb) (\<lambda>has_events.
       if \<not> has_events then Inr []
       else
         bind_res (py_subscript data ''_embedded'') (\<lambda>emb2.
         bind_res (py_subscript emb2 ''events'') (\<lambda>evs.
         bind_res (py_iter evs) (\<lambda>items.
         Inr (parse_items w art items [])))))))"

text \<open>The count printed by the debug line of \<^verbatim>\<open>search_artist_events\<close>, which can raise.\<close>

definition debug_count :: "json \<Rightarrow> exn + nat" where
  "debug_count data =
     bind_res (py_get data ''_embedded'' (JObj [])) (\<lambda>emb.
     bind_res (py_get emb ''events'' (JArr [])) (\<lambda>evs. py_len evs))"

text \<open>\<^verbatim>\<open>search_artist_events\<close>: every exception is caught and gives no events. (The
  \<^verbatim>\<open>print\<close> after \<^verbatim>\<open>else:\<close> is not indented in the source; it is read as the body of the
  \<^verbatim>\<open>else\<close>.)\<close>

definition search_artist_events :: "env \<Rightarrow> string \<Rightarrow> string \<Rightarrow> event list" where
  "search_artist_events w api_key art =
     (case tm_get w api_key art of
        Inl e \<Rightarrow> []
      | Inr (status, data) \<Rightarrow>
          if status = 200 then
            (case debug_count data of
               Inl e \<Rightarrow> []
             | Inr n \<Rightarrow> (case parse_events w data art of Inl e \<Rightarrow> [] | Inr events \<Rightarrow> events))
          else [])"

fun search_all :: "env \<Rightarrow> string \<Rightarrow> string list \<Rightarrow> event list \<Rightarrow> event list" where
  "search_all w api_key [] all_events = all_events"
| "search_all w api_key (art # rest) all_events =
     search_all w api_key rest (all_events @ search_artist_events w api_key art)"

text \<open>\<^verbatim>\<open>scrape_events\<close>: \<^verbatim>\<open>not self.api_key\<close> holds for \<open>None\<close> and for the empty string.\<close>

definition scrape_events :: "env \<Rightarrow> string option \<Rightarrow> string list \<Rightarrow> exn + event list" where
  "scrape_events w api_key artists =
     (case api_key of
        None \<Rightarrow> Inr []
      | Some k \<Rightarrow>
          if k = [] then Inr []
          else (case tm_session_create w of
                  Some e \<Rightarrow> Inl e
                | None \<Rightarrow> Inr (search_all w k artists [])))"

section \<open>main.py: the orchestrator\<close>




section \<open>The radius filter as the specification states it\<close>

text \<open>The great-circle distance from the reference point to \<open>c\<close> is computed and is at most
  \<open>r\<close> kilometres.\<close>

definition within_km :: "env \<Rightarrow> real \<Rightarrow> coords \<Rightarrow> bool" where
  "within_km w r c = (case geodesic w WROCLAW_COORDS c of Inl e \<Rightarrow> False | Inr d \<Rightarrow> d \<le> r)"

section \<open>Concrete environments, elements and responses\<close>

text \<open>A quiet environment: the geocoder finds nothing, the distance computation raises, every
  search page is empty, no API key is set and the database accepts everything.\<close>

definition env0 :: env where
  "env0 = \<lparr>geocode = (\<lambda>qs n. Inr None), geodesic = (\<lambda>a b. Inl ValueError),
            clock_now = ''2026-01-01T12:00:00'', session_create = None,
            session_get = (\<lambda>url. Inr (200, [])), tm_api_key = None,
            tm_session_create = None, tm_get = (\<lambda>k a. Inr (200, JObj [])),
            parse_float = (\<lambda>s. None), repr = (\<lambda>v. ''?''), db_save = (\<lambda>evs. None)\<rparr>"

definition scraper0 :: scraper where
  "scraper0 = \<lparr>session_open = False, geocoded = []\<rparr>"

definition berlin :: coords where "berlin = (5252 / 100, 13405 / 1000)"
definition sydney :: coords where "sydney = (- 3387 / 100, 15121 / 100)"

definition env_geo :: env where
  "env_geo = env0\<lparr>
     geocode := (\<lambda>qs n. if n = ''Berlin'' then Inr (Some berlin)
                         else if n = ''Unknown'' then Inr (Some sydney)
                         else if n = ''Atlantis'' then Inr (Some (95, 200))
                         else Inr None),
     geodesic := (\<lambda>a b. if b = berlin then Inr 295
                         else if b = sydney then Inr 15600
                         else Inl ValueError),
     parse_float := (\<lambda>s. if s = ''52.52'' then Some (5252 / 100)
                           else if s = ''13.405'' then Some (13405 / 1000)
                           else if s = ''0'' then Some 0
                           else None)\<rparr>"

definition el_berlin :: element where
  "el_berlin = \<lparr>title_elem = Inr (Some ''Amelie Lens live''), date_elem = Inr (Some ''12.06.2026''),
                 location_elem = Inr (Some ''Berlin''), link_elem = Inr (Some ''/event/1'')\<rparr>"

definition el_atlantis :: element where
  "el_atlantis = el_berlin\<lparr>location_elem := Inr (Some ''Atlantis'')\<rparr>"

definition el_empty :: element where
  "el_empty = \<lparr>title_elem = Inr None, date_elem = Inr None,
                location_elem = Inr None, link_elem = Inr None\<rparr>"

definition el_blank_title :: element where
  "el_blank_title = el_berlin\<lparr>title_elem := Inr (Some [])\<rparr>"

definition tm_data :: "json \<Rightarrow> json" where
  "tm_data ev = JObj [(''_embedded'', JObj [(''events'', JArr [ev])])]"

definition venue_berlin :: "(string \<times> json) list" where
  "venue_berlin = [(''city'', JObj [(''name'', JStr ''Berlin'')]),
                   (''country'', JObj [(''countryCode'', JStr ''DE'')])]"

definition ev_berlin :: json where
  "ev_berlin = JObj [(''name'', JStr ''Amelie Lens''), (''url'', JStr ''https://tm.example/1''),
     (''dates'', JObj [(''start'', JObj [(''localDate'', JStr ''2026-06-12'')])]),
     (''_embedded'', JObj [(''venues'', JArr [JObj (venue_berlin @
        [(''location'', JObj [(''latitude'', JStr ''52.52''), (''longitude'', JStr ''13.405'')])])])])]"

definition ev_no_name :: json where
  "ev_no_name = JObj [(''url'', JStr ''https://tm.example/2'')]"

definition ev_no_coords :: json where
  "ev_no_coords = JObj [(''name'', JStr ''Fisher''),
     (''_embedded'', JObj [(''venues'', JArr [JObj venue_berlin])])]"

definition ev_zero_lat :: json where
  "ev_zero_lat = JObj [(''name'', JStr ''Fisher''),
     (''_embedded'', JObj [(''venues'', JArr [JObj (venue_berlin @
        [(''location'', JObj [(''longitude'', JStr ''13.405'')])])])])]"

text \<open>A geocoder that answers the first query and refuses every later one.\<close>

definition env_flaky :: env where
  "env_flaky = env0\<lparr>geocode := (\<lambda>qs n. if qs = [] then Inr (Some berlin)
                                      else Inl (ExternalError ''429 Too Many Requests''))\<rparr>"







text \<open>Events whose venue has a latitude that is zero or missing and a longitude on which
  \<^verbatim>\<open>float\<close> raises.\<close>

definition ev_bad_lon :: json where
  "ev_bad_lon = JObj [(''name'', JStr ''Fisher''),
     (''_embedded'', JObj [(''venues'', JArr [JObj (venue_berlin @
        [(''location'', JObj [(''latitude'', JStr ''0''), (''longitude'', JStr ''abc'')])])])])]"

definition ev_huge_lon :: json where
  "ev_huge_lon = JObj [(''name'', JStr ''Fisher''),
     (''_embedded'', JObj [(''venues'', JArr [JObj (venue_berlin @
        [(''location'', JObj [(''longitude'', JInt (10 ^ 309))])])])])]"




definition ev_tm_no_name :: event where
  "ev_tm_no_name = \<lparr>title = JStr [], artist = ''Fisher'', date_str = JStr [],
     location = ''Unknown'', source = ''ticketmaster'',
     ticket_link = JStr ''https://tm.example/2'',
     coordinates = None, scraped_at = ''2026-01-01T12:00:00''\<rparr>"

definition ev_tm_no_coords :: event where
  "ev_tm_no_coords = \<lparr>title = JStr ''Fisher'', artist = ''Fisher'', date_str = JStr [],
     location = ''Berlin, DE'', source = ''ticketmaster'', ticket_link = JStr [],
     coordinates = None, scraped_at = ''2026-01-01T12:00:00''\<rparr>"

definition loc_no_lat :: json where
  "loc_no_lat = JObj [(''longitude'', JStr ''13.405'')]"

section \<open>Auxiliary facts\<close>

lemmas ex_defs = env0_def env_geo_def scraper0_def berlin_def sydney_def el_berlin_def
  el_atlantis_def el_empty_def el_blank_title_def tm_data_def venue_berlin_def ev_berlin_def
  ev_no_name_def ev_no_coords_def ev_zero_lat_def

lemmas model_defs = parse_eventim_event_def get_city_coordinates_def is_within_range_def
  startswith_slash_def WROCLAW_COORDS_def MAX_DISTANCE_KM_def TM_MAX_DISTANCE_KM_def
  parse_event_def parse_events_def venue_info_def venue_place_def event_fields_def
  bind_res_def within_km_def

lemma bind_res_Inr_iff:
  "bind_res r f = Inr y \<longleftrightarrow> (\<exists>v. r = Inr v \<and> f v = Inr y)"
  by (cases r) (simp_all add: bind_res_def)

lemma parse_eventim_event_within:
  assumes "fst (parse_eventim_event w s el a src) = Some ev" and "coordinates ev = Some c"
  shows "within_km w MAX_DISTANCE_KM c"
  using assms
  by (auto simp: parse_eventim_event_def within_km_def is_within_range_def Let_def
      split: sum.splits option.splits prod.splits if_splits)

lemma venue_info_within:
  assumes "venue_info w venues = Inr (Some (loc, Some c))"
  shows "within_km w TM_MAX_DISTANCE_KM c"
  using assms
  by (auto simp: venue_info_def within_km_def bind_res_Inr_iff Let_def split: if_splits)

lemma parse_event_SomeD:
  assumes "parse_event w a e = Inr (Some ev)"
  shows "\<exists>name url dat venues loc co.
    event_fields e = Inr (name, url, dat, venues) \<and>
    venue_info w venues = Inr (Some (loc, co)) \<and>
    ev = \<lparr>title = name, artist = a, date_str = dat, location = loc,
          source = ''ticketmaster'', ticket_link = url,
          coordinates = co, scraped_at = clock_now w\<rparr>"
  using assms
  by (auto simp: parse_event_def bind_res_Inr_iff split: option.splits)

lemma parse_event_within:
  assumes "parse_event w a e = Inr (Some ev)" and "coordinates ev = Some c"
  shows "within_km w TM_MAX_DISTANCE_KM c"
proof -
  from parse_event_SomeD [OF assms(1)] obtain venues loc co
    where v: "venue_info w venues = Inr (Some (loc, co))" and c: "coordinates ev = co"
    by auto
  with assms(2) show ?thesis by (auto intro: venue_info_within)
qed

lemma parse_items_sound:
  "ev \<in> set (parse_items w a items acc) \<Longrightarrow>
   ev \<in> set acc \<or> (\<exists>e \<in> set items. parse_event w a e = Inr (Some ev))"
proof (induction items arbitrary: acc)
  case Nil
  then show ?case by simp
next
  case (Cons x xs)
  show ?case
  proof (cases "parse_event w a x")
    case (Inl err)
    with Cons.prems have "ev \<in> set (parse_items w a xs acc)" by simp
    from Cons.IH [OF this] show ?thesis by auto
  next
    case (Inr r)
    show ?thesis
    proof (cases r)
      case None
      with Inr Cons.prems have "ev \<in> set (parse_items w a xs acc)" by simp
      from Cons.IH [OF this] show ?thesis by auto
    next
      case (Some e')
      with Inr Cons.prems have "ev \<in> set (parse_items w a xs (acc @ [e']))" by simp
      from Cons.IH [OF this] Inr Some show ?thesis by auto
    qed
  qed
qed



lemma parse_events_origin:
  assumes "parse_events w data a = Inr evs"
  shows "evs = [] \<or> (\<exists>emb ej items. py_subscript data ''_embedded'' = Inr emb \<and>
           py_subscript emb ''events'' = Inr ej \<and> py_iter ej = Inr items \<and>
           evs = parse_items w a items [])"
  using assms
  by (simp add: parse_events_def bind_res_def split: sum.splits if_splits)

lemma parse_events_item:
  assumes "parse_events w data a = Inr evs" and "ev \<in> set evs"
  shows "\<exists>emb ej items e. py_subscript data ''_embedded'' = Inr emb \<and>
           py_subscript emb ''events'' = Inr ej \<and> py_iter ej = Inr items \<and>
           e \<in> set items \<and> parse_event w a e = Inr (Some ev)"
proof -
  from parse_events_origin [OF assms(1)] assms(2)
  obtain emb ej items where o: "py_subscript data ''_embedded'' = Inr emb"
    "py_subscript emb ''events'' = Inr ej" "py_iter ej = Inr items"
    and "ev \<in> set (parse_items w a items [])" by auto
  from parse_items_sound [OF this(4)] obtain e where "e \<in> set items"
    "parse_event w a e = Inr (Some ev)" by auto
  with o show ?thesis by blast
qed

lemma parse_events_sound:
  assumes "parse_events w data a = Inr evs" and "ev \<in> set evs"
  shows "\<exists>e. parse_event w a e = Inr (Some ev)"
  using parse_events_item [OF assms] by blast



lemma py_get_subscript:
  "py_get v k JNull = Inr x \<Longrightarrow> py_truthy x \<Longrightarrow> py_subscript v k = Inr x"
  by (cases v) (auto split: option.splits)

lemma parse_event_eq:
  assumes "event_fields e = Inr (name, url, dat, venues)"
    and "venue_info w venues = Inr (Some (loc, co))"
  shows "parse_event w a e =
     Inr (Some \<lparr>title = name, artist = a, date_str = dat, location = loc,
                 source = ''ticketmaster'', ticket_link = url,
                 coordinates = co, scraped_at = clock_now w\<rparr>)"
  using assms by (simp add: parse_event_def bind_res_def)

lemma venue_info_absent:
  "\<not> py_truthy venues \<Longrightarrow> venue_info w venues = Inr (Some (''Unknown'', None))"
  by (simp add: venue_info_def)

lemma venue_info_no_location:
  assumes "py_truthy venues" and "py_index0 venues = Inr venue"
    and "venue_place w venue = Inr loc"
    and "py_get venue ''location'' JNull = Inr vl" and "\<not> py_truthy vl"
  shows "venue_info w venues = Inr (Some (loc, None))"
  using assms by (simp add: venue_info_def bind_res_def)

lemma venue_info_zero:
  assumes "py_truthy venues" and "py_index0 venues = Inr venue"
    and "venue_place w venue = Inr loc"
    and "py_get venue ''location'' JNull = Inr vl" and "py_truthy vl"
    and "py_get vl ''latitude'' (JInt 0) = Inr la" and "py_float w la = Inr lat"
    and "py_get vl ''longitude'' (JInt 0) = Inr lo" and "py_float w lo = Inr lon"
    and "lat = 0 \<or> lon = 0"
  shows "venue_info w venues = Inr (Some (loc, None))"
proof -
  from assms(4,5) have "py_subscript venue ''location'' = Inr vl" by (rule py_get_subscript)
  with assms show ?thesis by (auto simp add: venue_info_def bind_res_def)
qed

lemma py_float_geodesic: "py_float (w\<lparr>geodesic := g\<rparr>) v = py_float w v"
  by (cases v) simp_all

lemma py_str_geodesic: "py_str (w\<lparr>geodesic := g\<rparr>) v = py_str w v"
  by (cases v) simp_all

lemma venue_place_geodesic: "venue_place (w\<lparr>geodesic := g\<rparr>) venue = venue_place w venue"
  by (simp add: venue_place_def py_str_geodesic)




lemma scrape_artists_all_fail:
  "\<forall>art \<in> set arts. \<exists>e. session_get w (search_url src art) = Inl e \<Longrightarrow>
   scrape_artists w src arts (evs, s) = (evs, s)"
  by (induction arts) auto

lemma FLOAT_OVERFLOW_pos: "0 < FLOAT_OVERFLOW"
proof -
  have "(2::int) ^ 970 < 2 ^ 1024" by (rule power_strict_increasing) simp_all
  then show ?thesis by (simp add: FLOAT_OVERFLOW_def)
qed

lemma py_float_zero: "py_float w (JInt 0) = Inr 0"
  using FLOAT_OVERFLOW_pos by simp

lemma FLOAT_OVERFLOW_le_huge: "FLOAT_OVERFLOW \<le> 10 ^ 309"
  by (simp add: FLOAT_OVERFLOW_def)




text \<open>The adapters add no event of their own while they iterate: what holds of every event
  of the two parsers holds of every event the adapters return.\<close>

lemma parse_elements_sound:
  "ev \<in> set (fst (parse_elements w a src els (acc, s))) \<Longrightarrow>
   ev \<in> set acc \<or> (\<exists>el s'. fst (parse_eventim_event w s' el a src) = Some ev)"
proof (induction els arbitrary: acc s)
  case Nil
  then show ?case by simp
next
  case (Cons el els)
  obtain r s1 where p: "parse_eventim_event w s el a src = (r, s1)"
    by (cases "parse_eventim_event w s el a src")
  show ?case
  proof (cases r)
    case None
    with p Cons.prems have "ev \<in> set (fst (parse_elements w a src els (acc, s1)))" by simp
    from Cons.IH [OF this] show ?thesis .
  next
    case (Some e')
    with p Cons.prems have "ev \<in> set (fst (parse_elements w a src els (acc @ [e'], s1)))"
      by simp
    from Cons.IH [OF this] have "ev \<in> set acc \<or> ev = e' \<or>
        (\<exists>el s'. fst (parse_eventim_event w s' el a src) = Some ev)" by auto
    moreover from p Some have "fst (parse_eventim_event w s el a src) = Some e'" by simp
    ultimately show ?thesis by blast
  qed
qed

lemma scrape_artists_sound:
  "ev \<in> set (fst (scrape_artists w src arts (acc, s))) \<Longrightarrow>
   ev \<in> set acc \<or> (\<exists>el s' a. fst (parse_eventim_event w s' el a src) = Some ev)"
proof (induction arts arbitrary: acc s)
  case Nil
  then show ?case by simp
next
  case (Cons art arts)
  show ?case
  proof (cases "session_get w (search_url src art)")
    case (Inl e)
    with Cons.prems have "ev \<in> set (fst (scrape_artists w src arts (acc, s)))" by simp
    from Cons.IH [OF this] show ?thesis .
  next
    case (Inr r)
    obtain status els where r: "r = (status, els)" by (cases r)
    show ?thesis
    proof (cases "status = 200")
      case False
      with Inr r Cons.prems have "ev \<in> set (fst (scrape_artists w src arts (acc, s)))" by simp
      from Cons.IH [OF this] show ?thesis .
    next
      case True
      obtain acc' s1 where p: "parse_elements w art src (take 5 els) (acc, s) = (acc', s1)"
        by (cases "parse_elements w art src (take 5 els) (acc, s)")
      with Inr r True Cons.prems have "ev \<in> set (fst (scrape_artists w src arts (acc', s1)))"
        by simp
      from Cons.IH [OF this] have "ev \<in> set acc' \<or>
          (\<exists>el s' a. fst (parse_eventim_event w s' el a src) = Some ev)" .
      moreover have "ev \<in> set acc' \<Longrightarrow> ev \<in> set acc \<or>
          (\<exists>el s'. fst (parse_eventim_event w s' el art src) = Some ev)"
        using parse_elements_sound [of ev w art src "take 5 els" acc s] p by simp
      ultimately show ?thesis by blast
    qed
  qed
qed

lemma html_adapters_within_radius:
  assumes "scrape_eventim_pl w s = Inr (evs, s') \<or> scrape_eventim_de w s = Inr (evs, s')"
    and "ev \<in> set evs" and "coordinates ev = Some c"
  shows "within_km w MAX_DISTANCE_KM c"
proof -
  from assms(1) have "\<exists>src s1. scrape_artists w src TARGET_ARTISTS ([], s1) = (evs, s')"
    unfolding scrape_eventim_pl_def scrape_eventim_de_def
    by (cases "get_session w s") auto
  then obtain src s1 where "scrape_artists w src TARGET_ARTISTS ([], s1) = (evs, s')" by blast
  with assms(2) have "ev \<in> set (fst (scrape_artists w src TARGET_ARTISTS ([], s1)))" by simp
  from scrape_artists_sound [OF this] obtain el s2 a
    where "fst (parse_eventim_event w s2 el a src) = Some ev" by auto
  from parse_eventim_event_within [OF this assms(3)] show ?thesis .
qed

lemma search_artist_events_sound:
  assumes "ev \<in> set (search_artist_events w k a)"
  shows "\<exists>e. parse_event w a e = Inr (Some ev)"
proof (cases "tm_get w k a")
  case (Inl x)
  then have "search_artist_events w k a = []" by (simp add: search_artist_events_def)
  with assms show ?thesis by simp
next
  case (Inr r)
  obtain status data where r: "r = (status, data)" by (cases r)
  show ?thesis
  proof (cases "parse_events w data a")
    case (Inl x)
    with \<open>tm_get w k a = Inr r\<close> r have "search_artist_events w k a = []"
      by (simp add: search_artist_events_def split: sum.splits)
    with assms show ?thesis by simp
  next
    case p: (Inr evs)
    with \<open>tm_get w k a = Inr r\<close> r
    have "search_artist_events w k a = [] \<or> search_artist_events w k a = evs"
      by (simp add: search_artist_events_def split: sum.splits)
    with assms have "ev \<in> set evs" by auto
    with p show ?thesis by (rule parse_events_sound)
  qed
qed

lemma search_all_sound:
  "ev \<in> set (search_all w k arts acc) \<Longrightarrow>
   ev \<in> set acc \<or> (\<exists>a. ev \<in> set (search_artist_events w k a))"
proof (induction arts arbitrary: acc)
  case Nil
  then show ?case by simp
next
  case (Cons art arts)
  from Cons.prems have "ev \<in> set (search_all w k arts (acc @ search_artist_events w k art))"
    by simp
  from Cons.IH [OF this] show ?case by auto
qed

lemma api_adapter_within_radius:
  assumes "scrape_events w key arts = Inr evs" and "ev \<in> set evs"
    and "coordinates ev = Some c"
  shows "within_km w TM_MAX_DISTANCE_KM c"
proof -
  from assms(1,2) have "\<exists>k. ev \<in> set (search_all w k arts [])"
    unfolding scrape_events_def by (auto split: option.splits if_splits)
  then obtain k where "ev \<in> set (search_all w k arts [])" ..
  from search_all_sound [OF this] obtain a where "ev \<in> set (search_artist_events w k a)"
    by auto
  from search_artist_events_sound [OF this] obtain e where "parse_event w a e = Inr (Some ev)" ..
  from parse_event_within [OF this assms(3)] show ?thesis .
qed

section \<open>The claims\<close>

text \<open>C1: every event that \<^verbatim>\<open>parse_eventim_event\<close> returns and every event in the list that
  \<^verbatim>\<open>parse_events\<close> returns passed the distance filter: if its coordinates are present, the
  distance from the reference point to them was computed and is at most 700 km for the HTML
  adapters and at most 1000 km for the API adapter.\<close>

theorem C1_emitted_within_radius:
  "(fst (parse_eventim_event w s el a src) = Some ev \<longrightarrow> coordinates ev = Some c \<longrightarrow>
      within_km w MAX_DISTANCE_KM c) \<and>
   (parse_events w data a' = Inr evs \<longrightarrow> ev' \<in> set evs \<longrightarrow> coordinates ev' = Some c' \<longrightarrow>
      within_km w TM_MAX_DISTANCE_KM c')"
proof (intro conjI impI)
  assume "fst (parse_eventim_event w s el a src) = Some ev" "coordinates ev = Some c"
  then show "within_km w MAX_DISTANCE_KM c" by (rule parse_eventim_event_within)
next
  assume h: "parse_events w data a' = Inr evs" "ev' \<in> set evs" "coordinates ev' = Some c'"
  from parse_events_sound [OF h(1) h(2)] obtain e where "parse_event w a' e = Inr (Some ev')" ..
  from parse_event_within [OF this h(3)] show "within_km w TM_MAX_DISTANCE_KM c'" .
qed

theorem C1_witness:
  "fst (parse_eventim_event env_geo scraper0 el_berlin ''Amelie Lens'' ''eventim.de'') =
     Some \<lparr>title = JStr ''Amelie Lens live'', artist = ''Amelie Lens'',
            date_str = JStr ''12.06.2026'', location = ''Berlin'', source = ''eventim.de'',
            ticket_link = JStr ''https://www.eventim.de/event/1'',
            coordinates = Some berlin, scraped_at = ''2026-01-01T12:00:00''\<rparr> \<and>
   within_km env_geo MAX_DISTANCE_KM berlin \<and>
   parse_events env_geo (tm_data ev_berlin) ''Amelie Lens'' =
     Inr [\<lparr>title = JStr ''Amelie Lens'', artist = ''Amelie Lens'',
            date_str = JStr ''2026-06-12'', location = ''Berlin, DE'', source = ''ticketmaster'',
            ticket_link = JStr ''https://tm.example/1'',
            coordinates = Some berlin, scraped_at = ''2026-01-01T12:00:00''\<rparr>] \<and>
   within_km env_geo TM_MAX_DISTANCE_KM berlin"
proof -
  let ?e1 = "\<lparr>title = JStr ''Amelie Lens live'', artist = ''Amelie Lens'',
            date_str = JStr ''12.06.2026'', location = ''Berlin'', source = ''eventim.de'',
            ticket_link = JStr ''https://www.eventim.de/event/1'',
            coordinates = Some berlin, scraped_at = ''2026-01-01T12:00:00''\<rparr>"
  let ?e2 = "\<lparr>title = JStr ''Amelie Lens'', artist = ''Amelie Lens'',
            date_str = JStr ''2026-06-12'', location = ''Berlin, DE'', source = ''ticketmaster'',
            ticket_link = JStr ''https://tm.example/1'',
            coordinates = Some berlin, scraped_at = ''2026-01-01T12:00:00''\<rparr>"
  have h1: "fst (parse_eventim_event env_geo scraper0 el_berlin ''Amelie Lens'' ''eventim.de'') = Some ?e1"
    by (simp add: model_defs ex_defs Let_def)
  have h2: "parse_events env_geo (tm_data ev_berlin) ''Amelie Lens'' = Inr [?e2]"
    by (simp add: model_defs ex_defs Let_def)
  have c1: "coordinates ?e1 = Some berlin" and c2: "coordinates ?e2 = Some berlin"
    and m: "?e2 \<in> set [?e2]" by simp_all
  from C1_emitted_within_radius [of env_geo scraper0 el_berlin "''Amelie Lens''" "''eventim.de''"
      ?e1 berlin "tm_data ev_berlin" "''Amelie Lens''" "[?e2]" ?e2 berlin] h1 h2 c1 c2 m
  have "within_km env_geo MAX_DISTANCE_KM berlin \<and> within_km env_geo TM_MAX_DISTANCE_KM berlin"
    by blast
  with h1 h2 show ?thesis by blast
qed




text \<open>C3, as the code has it: when the location string geocodes to coordinates on which the
  distance computation raises, \<^verbatim>\<open>is_within_range\<close> is false and the event is dropped.\<close>

theorem C3_distance_failure_drops:
  assumes "location_elem el = Inr lo"
    and "fst (get_city_coordinates w s (case lo of Some l \<Rightarrow> l | None \<Rightarrow> ''Unknown'')) = Some c"
    and "geodesic w WROCLAW_COORDS c = Inl e"
  shows "fst (parse_eventim_event w s el a src) = None"
  using assms
  by (auto simp: parse_eventim_event_def is_within_range_def Let_def
      split: sum.splits option.splits prod.splits)

theorem C3_witness:
  "location_elem el_atlantis = Inr (Some ''Atlantis'') \<and>
   fst (get_city_coordinates env_geo scraper0 ''Atlantis'') = Some (95, 200) \<and>
   geodesic env_geo WROCLAW_COORDS (95, 200) = Inl ValueError \<and>
   fst (parse_eventim_event env_geo scraper0 el_atlantis ''Amelie Lens'' ''eventim.de'') = None"
proof -
  have h1: "location_elem el_atlantis = Inr (Some ''Atlantis'')"
    by (simp add: ex_defs)
  have h2: "fst (get_city_coordinates env_geo scraper0
      (case Some ''Atlantis'' of Some l \<Rightarrow> l | None \<Rightarrow> ''Unknown'')) = Some (95, 200)"
    by (simp add: get_city_coordinates_def ex_defs)
  have h3: "geodesic env_geo WROCLAW_COORDS (95, 200) = Inl ValueError"
    by (simp add: WROCLAW_COORDS_def ex_defs)
  from C3_distance_failure_drops [OF h1 h2 h3]
  have "fst (parse_eventim_event env_geo scraper0 el_atlantis ''Amelie Lens'' ''eventim.de'') = None" .
  with h1 h2 h3 show ?thesis by simp
qed

text \<open>C3 as stated fails: the location geocodes, the distance computation raises, and
  \<^verbatim>\<open>parse_eventim_event\<close> returns \<open>None\<close>.\<close>

theorem C3_counterexample:
  "location_elem el_atlantis = Inr (Some ''Atlantis'') \<and>
   fst (get_city_coordinates env_geo scraper0 ''Atlantis'') = Some (95, 200) \<and>
   geodesic env_geo WROCLAW_COORDS (95, 200) = Inl ValueError \<and>
   fst (parse_eventim_event env_geo scraper0 el_atlantis ''Fisher'' ''eventim.pl'') = None"
  by (simp add: model_defs ex_defs Let_def)




text \<open>C5, as the code has it: an API event whose fields can be read and whose \<^verbatim>\<open>venues\<close> value
  is absent or empty is emitted with location \<^verbatim>\<open>"Unknown"\<close> and no coordinates; one whose first
  venue has no \<^verbatim>\<open>location\<close> value is emitted with no coordinates and with the
  \<^verbatim>\<open>"City, CC"\<close> string of the venue as its location.\<close>

theorem C5_venue_absent_or_without_coordinates:
  "(event_fields e = Inr (name, url, dat, venues) \<longrightarrow> \<not> py_truthy venues \<longrightarrow>
      parse_event w a e =
        Inr (Some \<lparr>title = name, artist = a, date_str = dat, location = ''Unknown'',
                    source = ''ticketmaster'', ticket_link = url,
                    coordinates = None, scraped_at = clock_now w\<rparr>)) \<and>
   (event_fields e2 = Inr (name2, url2, dat2, venues2) \<longrightarrow> py_truthy venues2 \<longrightarrow>
      py_index0 venues2 = Inr venue \<longrightarrow> venue_place w venue = Inr loc \<longrightarrow>
      py_get venue ''location'' JNull = Inr vl \<longrightarrow> \<not> py_truthy vl \<longrightarrow>
      parse_event w a2 e2 =
        Inr (Some \<lparr>title = name2, artist = a2, date_str = dat2, location = loc,
                    source = ''ticketmaster'', ticket_link = url2,
                    coordinates = None, scraped_at = clock_now w\<rparr>))"
proof (intro conjI impI)
  assume "event_fields e = Inr (name, url, dat, venues)" "\<not> py_truthy venues"
  then show "parse_event w a e =
        Inr (Some \<lparr>title = name, artist = a, date_str = dat, location = ''Unknown'',
                    source = ''ticketmaster'', ticket_link = url,
                    coordinates = None, scraped_at = clock_now w\<rparr>)"
    by (intro parse_event_eq venue_info_absent)
next
  assume f: "event_fields e2 = Inr (name2, url2, dat2, venues2)"
    and v: "py_truthy venues2" "py_index0 venues2 = Inr venue" "venue_place w venue = Inr loc"
      "py_get venue ''location'' JNull = Inr vl" "\<not> py_truthy vl"
  from v have "venue_info w venues2 = Inr (Some (loc, None))" by (rule venue_info_no_location)
  with f show "parse_event w a2 e2 =
        Inr (Some \<lparr>title = name2, artist = a2, date_str = dat2, location = loc,
                    source = ''ticketmaster'', ticket_link = url2,
                    coordinates = None, scraped_at = clock_now w\<rparr>)"
    by (rule parse_event_eq)
qed

theorem C5_witness:
  "event_fields ev_no_name = Inr (JStr [], JStr ''https://tm.example/2'', JStr [], JArr []) \<and>
   \<not> py_truthy (JArr []) \<and>
   parse_event env0 ''Fisher'' ev_no_name = Inr (Some ev_tm_no_name) \<and>
   event_fields ev_no_coords = Inr (JStr ''Fisher'', JStr [], JStr [], JArr [JObj venue_berlin]) \<and>
   py_truthy (JArr [JObj venue_berlin]) \<and>
   py_index0 (JArr [JObj venue_berlin]) = Inr (JObj venue_berlin) \<and>
   venue_place env0 (JObj venue_berlin) = Inr ''Berlin, DE'' \<and>
   py_get (JObj venue_berlin) ''location'' JNull = Inr JNull \<and> \<not> py_truthy JNull \<and>
   parse_event env0 ''Fisher'' ev_no_coords = Inr (Some ev_tm_no_coords)"
proof -
  have f1: "event_fields ev_no_name = Inr (JStr [], JStr ''https://tm.example/2'', JStr [], JArr [])"
    by (simp add: event_fields_def bind_res_def ev_no_name_def)
  have v1: "\<not> py_truthy (JArr [])" by simp
  have f2: "event_fields ev_no_coords =
      Inr (JStr ''Fisher'', JStr [], JStr [], JArr [JObj venue_berlin])"
    by (simp add: event_fields_def bind_res_def ev_no_coords_def)
  have v2: "py_truthy (JArr [JObj venue_berlin])"
    "py_index0 (JArr [JObj venue_berlin]) = Inr (JObj venue_berlin)" by simp_all
  have p: "venue_place env0 (JObj venue_berlin) = Inr ''Berlin, DE''"
    by (simp add: venue_place_def bind_res_def venue_berlin_def)
  have l: "py_get (JObj venue_berlin) ''location'' JNull = Inr JNull" "\<not> py_truthy JNull"
    by (simp_all add: venue_berlin_def)
  have k: "clock_now env0 = ''2026-01-01T12:00:00''" by (simp add: env0_def)
  note inst = C5_venue_absent_or_without_coordinates [of ev_no_name "JStr []"
      "JStr ''https://tm.example/2''" "JStr []" "JArr []" env0 "''Fisher''"
      ev_no_coords "JStr ''Fisher''" "JStr []" "JStr []" "JArr [JObj venue_berlin]"
      "JObj venue_berlin" "''Berlin, DE''" JNull "''Fisher''"]
  from inst f1 v1 k have c1: "parse_event env0 ''Fisher'' ev_no_name = Inr (Some ev_tm_no_name)"
    by (simp add: ev_tm_no_name_def)
  from inst f2 v2 p l k have c2: "parse_event env0 ''Fisher'' ev_no_coords = Inr (Some ev_tm_no_coords)"
    by (simp add: ev_tm_no_coords_def)
  from f1 v1 c1 f2 v2 p l c2 show ?thesis by blast
qed

text \<open>C5 as stated fails: an event with a venue and no venue coordinates has the location
  \<^verbatim>\<open>"Berlin, DE"\<close>, not \<^verbatim>\<open>"Unknown"\<close>.\<close>

theorem C5_counterexample:
  "parse_events env0 (tm_data ev_no_coords) ''Fisher'' = Inr [ev_tm_no_coords] \<and>
   py_get (JObj venue_berlin) ''location'' JNull = Inr JNull \<and>
   coordinates ev_tm_no_coords = None \<and>
   location ev_tm_no_coords = ''Berlin, DE''"
  by (simp add: model_defs ex_defs ev_tm_no_coords_def Let_def)

text \<open>C6: without an API key (the variable unset, or set to the empty string)
  \<^verbatim>\<open>scrape_events\<close> returns the empty list and raises nothing, whatever the artists and
  whatever the environment would answer.\<close>

theorem C6_no_key_no_events:
  "scrape_events w None artists = Inr [] \<and> scrape_events w (Some []) artists = Inr []"
  by (simp add: scrape_events_def)

text \<open>C7, as the code has it: a candidate with none of the four sub-elements gives the event
  with the default values, provided the geocoder does not resolve the string \<^verbatim>\<open>"Unknown"\<close> to
  coordinates that are out of range.\<close>

theorem C7_defaults:
  assumes "title_elem el = Inr None" and "date_elem el = Inr None"
    and "location_elem el = Inr None" and "link_elem el = Inr None"
    and "\<forall>c. fst (get_city_coordinates w s ''Unknown'') = Some c \<longrightarrow> is_within_range w c"
  shows "fst (parse_eventim_event w s el a src) =
     Some \<lparr>title = JStr (a @ '' - Event''), artist = a, date_str = JStr [],
            location = ''Unknown'', source = src, ticket_link = JStr [],
            coordinates = fst (get_city_coordinates w s ''Unknown''),
            scraped_at = clock_now w\<rparr>"
  using assms
  by (auto simp: parse_eventim_event_def Let_def split: sum.splits option.splits prod.splits)

theorem C7_witness:
  "title_elem el_empty = Inr None \<and> date_elem el_empty = Inr None \<and>
   location_elem el_empty = Inr None \<and> link_elem el_empty = Inr None \<and>
   fst (get_city_coordinates env0 scraper0 ''Unknown'') = None \<and>
   fst (parse_eventim_event env0 scraper0 el_empty ''Fisher'' ''eventim.pl'') =
     Some \<lparr>title = JStr ''Fisher - Event'', artist = ''Fisher'', date_str = JStr [],
            location = ''Unknown'', source = ''eventim.pl'', ticket_link = JStr [],
            coordinates = None, scraped_at = ''2026-01-01T12:00:00''\<rparr>"
proof -
  have h: "title_elem el_empty = Inr None" "date_elem el_empty = Inr None"
    "location_elem el_empty = Inr None" "link_elem el_empty = Inr None"
    by (simp_all add: ex_defs)
  have g: "fst (get_city_coordinates env0 scraper0 ''Unknown'') = None"
    by (simp add: get_city_coordinates_def ex_defs)
  then have g': "\<forall>c. fst (get_city_coordinates env0 scraper0 ''Unknown'') = Some c \<longrightarrow>
      is_within_range env0 c" by simp
  have k: "clock_now env0 = ''2026-01-01T12:00:00''" by (simp add: env0_def)
  from C7_defaults [OF h g', of "''Fisher''" "''eventim.pl''"] g k
  have "fst (parse_eventim_event env0 scraper0 el_empty ''Fisher'' ''eventim.pl'') =
     Some \<lparr>title = JStr ''Fisher - Event'', artist = ''Fisher'', date_str = JStr [],
            location = ''Unknown'', source = ''eventim.pl'', ticket_link = JStr [],
            coordinates = None, scraped_at = ''2026-01-01T12:00:00''\<rparr>" by simp
  with h g show ?thesis by simp
qed

text \<open>C7 as stated fails: the geocoder resolves \<^verbatim>\<open>"Unknown"\<close> to a far place, and the candidate
  without sub-elements gives \<open>None\<close>.\<close>

theorem C7_counterexample:
  "title_elem el_empty = Inr None \<and> date_elem el_empty = Inr None \<and>
   location_elem el_empty = Inr None \<and> link_elem el_empty = Inr None \<and>
   fst (parse_eventim_event env_geo scraper0 el_empty ''Fisher'' ''eventim.pl'') = None"
  by (simp add: model_defs ex_defs Let_def)

text \<open>C8, as the code has it: \<^verbatim>\<open>get_city_coordinates\<close> keeps no cache. Every call sends its
  query to the geocoder, so after two calls with the same string the geocoder was asked twice,
  and the second result is what the geocoder answers then.\<close>

theorem C8_no_cache:
  "geocoded (snd (get_city_coordinates w s p)) = geocoded s @ [p] \<and>
   geocoded (snd (get_city_coordinates w (snd (get_city_coordinates w s p)) p)) =
     geocoded s @ [p, p] \<and>
   fst (get_city_coordinates w (snd (get_city_coordinates w s p)) p) =
     (case geocode w (geocoded s @ [p]) p of
        Inl e \<Rightarrow> None | Inr None \<Rightarrow> None | Inr (Some c) \<Rightarrow> Some c)"
  by (auto simp: get_city_coordinates_def split: sum.splits option.splits)

text \<open>C8 as stated fails: the second call with the same string asks the geocoder again and
  returns another result.\<close>

theorem C8_counterexample:
  "fst (get_city_coordinates env_flaky scraper0 ''Berlin'') = Some berlin \<and>
   fst (get_city_coordinates env_flaky
          (snd (get_city_coordinates env_flaky scraper0 ''Berlin'')) ''Berlin'') = None \<and>
   geocoded (snd (get_city_coordinates env_flaky
          (snd (get_city_coordinates env_flaky scraper0 ''Berlin'')) ''Berlin'')) =
     [''Berlin'', ''Berlin'']"
  by (simp add: get_city_coordinates_def env_flaky_def env0_def scraper0_def berlin_def)

text \<open>C9, as the code has it: when the \<^verbatim>\<open>location\<close> value of the first venue has a latitude
  or a longitude that is missing or converts to zero, and \<^verbatim>\<open>float\<close> raises on neither of the
  two values (the other fields of the event being readable), the event is emitted with no
  coordinates, as an event whose venue has no \<^verbatim>\<open>location\<close>, and the distance function plays
  no part in the result.\<close>

theorem C9_zero_coordinate_is_no_coordinate:
  assumes "event_fields e = Inr (name, url, dat, venues)"
    and "py_truthy venues" and "py_index0 venues = Inr venue"
    and "venue_place w venue = Inr loc"
    and "py_get venue ''location'' JNull = Inr vl"
    and "py_get vl ''latitude'' (JInt 0) = Inr la" and "py_float w la = Inr lat"
    and "py_get vl ''longitude'' (JInt 0) = Inr lo" and "py_float w lo = Inr lon"
    and "lat = 0 \<or> lon = 0"
  shows "parse_event w a e =
           Inr (Some \<lparr>title = name, artist = a, date_str = dat, location = loc,
                       source = ''ticketmaster'', ticket_link = url,
                       coordinates = None, scraped_at = clock_now w\<rparr>) \<and>
         (\<forall>g. parse_event (w\<lparr>geodesic := g\<rparr>) a e = parse_event w a e)"
proof -
  have v: "venue_info w' venues = Inr (Some (loc, None))"
    if w': "venue_place w' venue = Inr loc" "py_float w' la = Inr lat" "py_float w' lo = Inr lon"
    for w'
  proof (cases "py_truthy vl")
    case True
    from assms(2,3) w'(1) assms(5) True assms(6) w'(2) assms(8) w'(3) assms(10)
    show ?thesis by (rule venue_info_zero)
  next
    case False
    from assms(2,3) w'(1) assms(5) False show ?thesis by (rule venue_info_no_location)
  qed
  have r: "parse_event w a e =
           Inr (Some \<lparr>title = name, artist = a, date_str = dat, location = loc,
                       source = ''ticketmaster'', ticket_link = url,
                       coordinates = None, scraped_at = clock_now w\<rparr>)"
    using assms(1) v [OF assms(4) assms(7) assms(9)] by (rule parse_event_eq)
  have "parse_event (w\<lparr>geodesic := g\<rparr>) a e = parse_event w a e" for g
  proof -
    have "venue_info (w\<lparr>geodesic := g\<rparr>) venues = Inr (Some (loc, None))"
      using assms(4,7,9) by (intro v) (simp_all add: venue_place_geodesic py_float_geodesic)
    with assms(1) have "parse_event (w\<lparr>geodesic := g\<rparr>) a e =
           Inr (Some \<lparr>title = name, artist = a, date_str = dat, location = loc,
                       source = ''ticketmaster'', ticket_link = url,
                       coordinates = None, scraped_at = clock_now (w\<lparr>geodesic := g\<rparr>)\<rparr>)"
      by (rule parse_event_eq)
    with r show ?thesis by simp
  qed
  with r show ?thesis by blast
qed

theorem C9_witness:
  "event_fields ev_zero_lat =
     Inr (JStr ''Fisher'', JStr [], JStr [], JArr [JObj (venue_berlin @ [(''location'', loc_no_lat)])]) \<and>
   py_get loc_no_lat ''latitude'' (JInt 0) = Inr (JInt 0) \<and>
   py_float env_geo (JInt 0) = Inr 0 \<and>
   py_get loc_no_lat ''longitude'' (JInt 0) = Inr (JStr ''13.405'') \<and>
   py_float env_geo (JStr ''13.405'') = Inr (13405 / 1000) \<and>
   parse_event env_geo ''Fisher'' ev_zero_lat = Inr (Some ev_tm_no_coords) \<and>
   parse_event (env_geo\<lparr>geodesic := (\<lambda>p q. Inr 5000)\<rparr>) ''Fisher'' ev_zero_lat =
     Inr (Some ev_tm_no_coords)"
proof -
  let ?venue = "JObj (venue_berlin @ [(''location'', loc_no_lat)])"
  have f: "event_fields ev_zero_lat = Inr (JStr ''Fisher'', JStr [], JStr [], JArr [?venue])"
    by (simp add: event_fields_def bind_res_def ev_zero_lat_def loc_no_lat_def)
  have v: "py_truthy (JArr [?venue])" "py_index0 (JArr [?venue]) = Inr ?venue" by simp_all
  have p: "venue_place env_geo ?venue = Inr ''Berlin, DE''"
    by (simp add: venue_place_def bind_res_def venue_berlin_def)
  have l: "py_get ?venue ''location'' JNull = Inr loc_no_lat" "py_truthy loc_no_lat"
    by (simp_all add: venue_berlin_def loc_no_lat_def)
  have la: "py_get loc_no_lat ''latitude'' (JInt 0) = Inr (JInt 0)"
    "py_float env_geo (JInt 0) = Inr 0"
    using FLOAT_OVERFLOW_pos by (simp_all add: loc_no_lat_def)
  have lo: "py_get loc_no_lat ''longitude'' (JInt 0) = Inr (JStr ''13.405'')"
    "py_float env_geo (JStr ''13.405'') = Inr (13405 / 1000)"
    by (simp_all add: loc_no_lat_def env_geo_def env0_def)
  have z: "(0::real) = 0 \<or> (13405 / 1000 :: real) = 0" by simp
  have k: "clock_now env_geo = ''2026-01-01T12:00:00''" by (simp add: env_geo_def env0_def)
  note inst = C9_zero_coordinate_is_no_coordinate [OF f v p l(1) la(1) la(2) lo(1) lo(2) z,
      of "''Fisher''"]
  from inst k have c1: "parse_event env_geo ''Fisher'' ev_zero_lat = Inr (Some ev_tm_no_coords)"
    by (simp add: ev_tm_no_coords_def)
  from inst c1 have c2: "parse_event (env_geo\<lparr>geodesic := (\<lambda>p q. Inr 5000)\<rparr>) ''Fisher'' ev_zero_lat =
     Inr (Some ev_tm_no_coords)" by simp
  from f la lo c1 c2 show ?thesis by blast
qed

text \<open>C9 as stated fails: with a latitude that converts to zero and a longitude that is not a
  number, and with a missing latitude and an integer longitude too large for a float,
  \<^verbatim>\<open>float\<close> raises on the longitude and the event is skipped, not emitted.\<close>

theorem C9_counterexample:
  "py_float env_geo (JStr ''0'') = Inr 0 \<and>
   py_float env_geo (JStr ''abc'') = Inl ValueError \<and>
   parse_event env_geo ''Fisher'' ev_bad_lon = Inl ValueError \<and>
   parse_events env_geo (tm_data ev_bad_lon) ''Fisher'' = Inr [] \<and>
   py_float env_geo (JInt (10 ^ 309)) = Inl OverflowError \<and>
   parse_event env_geo ''Fisher'' ev_huge_lon = Inl OverflowError \<and>
   parse_events env_geo (tm_data ev_huge_lon) ''Fisher'' = Inr []"
proof -
  have z: "py_float env_geo (JStr ''0'') = Inr 0"
    and b: "py_float env_geo (JStr ''abc'') = Inl ValueError"
    by (simp_all add: env_geo_def env0_def)
  have h: "py_float env_geo (JInt (10 ^ 309)) = Inl OverflowError"
    using FLOAT_OVERFLOW_le_huge by simp
  have e1: "parse_event env_geo ''Fisher'' ev_bad_lon = Inl ValueError"
    using z b by (simp add: parse_event_def event_fields_def venue_info_def venue_place_def
        bind_res_def ev_bad_lon_def venue_berlin_def)
  have e2: "parse_event env_geo ''Fisher'' ev_huge_lon = Inl OverflowError"
    using h py_float_zero [of env_geo]
    by (simp add: parse_event_def event_fields_def venue_info_def venue_place_def
        bind_res_def ev_huge_lon_def venue_berlin_def del: py_float.simps)
  have p1: "parse_events env_geo (tm_data ev_bad_lon) ''Fisher'' = Inr []"
    using e1 by (simp add: parse_events_def bind_res_def tm_data_def)
  have p2: "parse_events env_geo (tm_data ev_huge_lon) ''Fisher'' = Inr []"
    using e2 by (simp add: parse_events_def bind_res_def tm_data_def)
  from z b e1 p1 h e2 p2 show ?thesis by blast
qed

text \<open>C10: when the candidate has no location sub-element (and the other three queries do not
  raise), the string \<^verbatim>\<open>"Unknown"\<close> is sent to the geocoder; if the geocoder resolves it to
  coordinates whose distance is more than 700 km or cannot be computed, the event is dropped.\<close>

theorem C10_unknown_is_geocoded:
  assumes "title_elem el = Inr t" and "date_elem el = Inr d" and "link_elem el = Inr h"
    and "location_elem el = Inr None"
  shows "geocoded (snd (parse_eventim_event w s el a src)) = geocoded s @ [''Unknown''] \<and>
         (\<forall>c. geocode w (geocoded s) ''Unknown'' = Inr (Some c) \<longrightarrow>
              ((\<exists>e. geodesic w WROCLAW_COORDS c = Inl e) \<or>
               (\<exists>dist. geodesic w WROCLAW_COORDS c = Inr dist \<and> dist > MAX_DISTANCE_KM)) \<longrightarrow>
              fst (parse_eventim_event w s el a src) = None)"
  using assms
  by (auto simp: parse_eventim_event_def get_city_coordinates_def is_within_range_def Let_def
      split: sum.splits option.splits prod.splits)

theorem C10_witness:
  "geocoded (snd (parse_eventim_event env_geo scraper0 el_empty ''Fisher'' ''eventim.pl'')) =
     [''Unknown''] \<and>
   geocode env_geo (geocoded scraper0) ''Unknown'' = Inr (Some sydney) \<and>
   geodesic env_geo WROCLAW_COORDS sydney = Inr 15600 \<and>
   fst (parse_eventim_event env_geo scraper0 el_empty ''Fisher'' ''eventim.pl'') = None"
proof -
  have h: "title_elem el_empty = Inr None" "date_elem el_empty = Inr None"
    "link_elem el_empty = Inr None" "location_elem el_empty = Inr None"
    by (simp_all add: ex_defs)
  have g: "geocode env_geo (geocoded scraper0) ''Unknown'' = Inr (Some sydney)"
    by (simp add: ex_defs)
  have d: "geodesic env_geo WROCLAW_COORDS sydney = Inr 15600"
    by (simp add: WROCLAW_COORDS_def ex_defs)
  have far: "(15600::real) > MAX_DISTANCE_KM" by (simp add: MAX_DISTANCE_KM_def)
  have s0: "geocoded scraper0 = []" by (simp add: scraper0_def)
  from C10_unknown_is_geocoded [OF h, of env_geo scraper0 "''Fisher''" "''eventim.pl''"] g d far s0
  have "geocoded (snd (parse_eventim_event env_geo scraper0 el_empty ''Fisher'' ''eventim.pl'')) =
     [''Unknown''] \<and>
     fst (parse_eventim_event env_geo scraper0 el_empty ''Fisher'' ''eventim.pl'') = None"
    by auto
  with g d show ?thesis by simp
qed

end
